theory Spec2Isabelle
  imports Main "HOL-Library.AList" "HOL-Library.Sublist" "HOL-Library.Monad_Syntax"
begin

section \<open>The help queue (src/help-queue/help-queue.ts)\<close>

subsection \<open>Members, helpers, helpees and errors\<close>

text \<open>
  A Discord snowflake is a string; a \<open>Date\<close> is its number of milliseconds.
  Of a \<open>GuildMember\<close> the queue reads the id and the display name only.
\<close>

type_synonym Snowflake = string
type_synonym Date = int

record GuildMember =
  member_id :: Snowflake
  displayName :: string

record Helper =
  helpStart :: Date
  helpEnd :: "Date option"
  helpedMembers :: "GuildMember list"
  helper_member :: GuildMember

record Helpee =
  waitStart :: Date
  upNext :: bool
  helpee_member :: GuildMember

text \<open>
  The errors of the source. \<open>QueueError message queueName\<close> is the only error the queue
  itself raises; the kinds the specification tells apart are told apart by the message.
  \<open>ExternalError\<close> stands for a rejection that comes out of an external collaborator
  (a Discord call, an extension hook, the renderer, a server method).
\<close>

datatype error =
    QueueError string string
  | CommandParseError string
  | CommandNotImplementedError string
  | ExternalError string

subsection \<open>Collections\<close>

text \<open>
  A discord.js \<open>Collection\<close> is a JavaScript \<open>Map\<close>: keys are unique and entries keep
  their insertion order. It is an association list here; \<open>set\<close> on a present key
  replaces the value where it stands and on an absent key appends, \<open>delete\<close> removes
  the key, \<open>size\<close> counts the keys.
\<close>

type_synonym ('k, 'v) Collection = "('k \<times> 'v) list"

definition Collection_has :: "('k, 'v) Collection \<Rightarrow> 'k \<Rightarrow> bool" where
  "Collection_has c k = (map_of c k \<noteq> None)"

definition Collection_get :: "('k, 'v) Collection \<Rightarrow> 'k \<Rightarrow> 'v option" where
  "Collection_get c k = map_of c k"

definition Collection_set :: "'k \<Rightarrow> 'v \<Rightarrow> ('k, 'v) Collection \<Rightarrow> ('k, 'v) Collection" where
  "Collection_set k v c = AList.update k v c"

definition Collection_delete :: "'k \<Rightarrow> ('k, 'v) Collection \<Rightarrow> ('k, 'v) Collection" where
  "Collection_delete k c = AList.delete k c"

definition Collection_size :: "('k, 'v) Collection \<Rightarrow> nat" where
  "Collection_size c = length (remdups (map fst c))"

subsection \<open>The queue's state and its constructor\<close>

record StudentBackup =
  memberId :: Snowflake
  waitStart_b :: Date
  upNext_b :: bool

record QueueBackup =
  studentsInQueue :: "StudentBackup list"

text \<open>
  Of the queue's channel the class reads the queue name and the members of the channel
  object (\<open>queueChannel.channelObj.members\<close>).
\<close>

record QueueChannel =
  queueName :: string
  parentCategoryId :: Snowflake
  channelObj_members :: "(Snowflake, GuildMember) Collection"

text \<open>
  The mutable fields of \<open>HelpQueueV2\<close>. The display, the extensions and the timer are
  external collaborators: they are called, and what they answer is an input of each
  operation (see \<open>Awaited\<close> below).
\<close>

record HelpQueueV2 =
  helpers :: "(Snowflake, Helper) Collection"
  students :: "Helpee list"
  notifGroup :: "(Snowflake, GuildMember) Collection"
  isOpen :: bool
  queueChannel :: QueueChannel

definition name :: "HelpQueueV2 \<Rightarrow> string" where
  "name q = queueName (queueChannel q)"

text \<open>The body of the constructor's \<open>forEach\<close>: one backup entry, pushed if its member is found.\<close>

definition restoreStudent :: "QueueChannel \<Rightarrow> Helpee list \<Rightarrow> StudentBackup \<Rightarrow> Helpee list" where
  "restoreStudent ch studs studentBackup =
     (case Collection_get (channelObj_members ch) (memberId studentBackup) of
        None \<Rightarrow> studs
      | Some correspondingMember \<Rightarrow>
          studs @ [\<lparr>waitStart = waitStart_b studentBackup,
                    upNext = upNext_b studentBackup,
                    helpee_member = correspondingMember\<rparr>])"

definition HelpQueueV2_constructor :: "QueueChannel \<Rightarrow> QueueBackup option \<Rightarrow> HelpQueueV2" where
  "HelpQueueV2_constructor ch backupData =
     \<lparr>helpers = [],
      students = (case backupData of
                    None \<Rightarrow> []
                  | Some b \<Rightarrow> foldl (restoreStudent ch) [] (studentsInQueue b)),
      notifGroup = [],
      isOpen = False,
      queueChannel = ch\<rparr>"

subsection \<open>The operations\<close>

text \<open>
  Every operation is asynchronous: it checks its preconditions and rejects with a
  \<open>QueueError\<close>, or updates the fields and then awaits external promises. What those
  promises do is an input: \<open>hooks\<close> is the outcome of the awaited \<open>Promise.all\<close> over
  notifications and extension hooks (\<open>None\<close> when all resolve, \<open>Some e\<close> when the first
  rejection is \<open>e\<close>), \<open>render\<close> the outcome of \<open>triggerRender\<close>. An operation returns its
  result (a rejection is \<open>Inl\<close>) and the queue it leaves behind. \<open>now\<close> is \<open>new Date()\<close>.
\<close>

record Awaited =
  hooks :: "error option"
  render :: "error option"

definition settle :: "error option \<Rightarrow> 'a \<Rightarrow> error + 'a" where
  "settle outcome v = (case outcome of Some e \<Rightarrow> Inl e | None \<Rightarrow> Inr v)"

text \<open>
  \<open>openQueue\<close>: its \<open>Promise.all\<close> is given two arrays of promises, not the promises, so
  it resolves at once and no notification or hook can reject the call; only
  \<open>triggerRender\<close> is awaited. \<open>notify\<close> decides who is messaged and no field.
\<close>

definition openQueue ::
  "HelpQueueV2 \<Rightarrow> GuildMember \<Rightarrow> bool \<Rightarrow> Date \<Rightarrow> Awaited \<Rightarrow> (error + unit) \<times> HelpQueueV2" where
  "openQueue q helperMember notify now aw =
     (if Collection_has (helpers q) (member_id helperMember)
      then (Inl (QueueError ''Queue is already open'' (name q)), q)
      else
        let helper = \<lparr>helpStart = now, helpEnd = None, helpedMembers = [],
                      helper_member = helperMember\<rparr>;
            q1 = q\<lparr>isOpen := True\<rparr>;
            q2 = q1\<lparr>helpers := Collection_set (member_id helperMember) helper (helpers q1)\<rparr>
        in (settle (render aw) (), q2))"

definition closeQueue ::
  "HelpQueueV2 \<Rightarrow> GuildMember \<Rightarrow> Date \<Rightarrow> Awaited \<Rightarrow> (error + Helper) \<times> HelpQueueV2" where
  "closeQueue q helperMember now aw =
     (let helper = Collection_get (helpers q) (member_id helperMember) in
      if \<not> isOpen q then (Inl (QueueError ''Queue is already closed'' (name q)), q)
      else case helper of
        None \<Rightarrow> (Inl (QueueError ''You are not one of the helpers'' (name q)), q)
      | Some h \<Rightarrow>
          let q1 = q\<lparr>helpers := Collection_delete (member_id helperMember) (helpers q)\<rparr>;
              q2 = q1\<lparr>isOpen := (Collection_size (helpers q1) > 0)\<rparr>;
              h' = h\<lparr>helpEnd := Some now\<rparr>
          in (case hooks aw of
                Some e \<Rightarrow> Inl e
              | None \<Rightarrow> settle (render aw) h', q2))"

definition enqueue ::
  "HelpQueueV2 \<Rightarrow> GuildMember \<Rightarrow> Date \<Rightarrow> Awaited \<Rightarrow> (error + unit) \<times> HelpQueueV2" where
  "enqueue q studentMember now aw =
     (if \<not> isOpen q then (Inl (QueueError ''Queue is not open.'' (name q)), q)
      else if find (\<lambda>s. member_id (helpee_member s) = member_id studentMember) (students q) \<noteq> None
      then (Inl (QueueError ''You are already in the queue.'' (name q)), q)
      else if Collection_has (helpers q) (member_id studentMember)
      then (Inl (QueueError ''You can't enqueue yourself while helping.'' (name q)), q)
      else
        let student = \<lparr>waitStart = now, upNext = (length (students q) = 0),
                       helpee_member = studentMember\<rparr>;
            q1 = q\<lparr>students := students q @ [student]\<rparr>
        in (case hooks aw of
              Some e \<Rightarrow> Inl e
            | None \<Rightarrow> settle (render aw) (), q1))"

text \<open>
  \<open>dequeueWithHelper\<close>: \<open>shift\<close> takes the first student; the push on
  \<open>helper.helpedMembers\<close> changes the helper object that the collection holds.
\<close>

definition dequeueWithHelper ::
  "HelpQueueV2 \<Rightarrow> GuildMember \<Rightarrow> Awaited \<Rightarrow> (error + Helpee) \<times> HelpQueueV2" where
  "dequeueWithHelper q helperMember aw =
     (let helper = Collection_get (helpers q) (member_id helperMember) in
      if \<not> isOpen q
      then (Inl (QueueError ''This queue is not open. Did you mean to use `/start`?'' (name q)), q)
      else case students q of
        [] \<Rightarrow> (Inl (QueueError ''There's no one in the queue'' (name q)), q)
      | firstStudent # rest \<Rightarrow>
          (case helper of
             None \<Rightarrow>
               (Inl (QueueError ''You don't have permission to help this queue'' (name q)), q)
           | Some h \<Rightarrow>
               let q1 = q\<lparr>students := rest\<rparr>;
                   h' = h\<lparr>helpedMembers := helpedMembers h @ [helpee_member firstStudent]\<rparr>;
                   q2 = q1\<lparr>helpers := Collection_set (member_id helperMember) h' (helpers q1)\<rparr>
               in (case hooks aw of
                     Some e \<Rightarrow> Inl e
                   | None \<Rightarrow> settle (render aw) firstStudent, q2)))"

text \<open>JavaScript's \<open>findIndex\<close> (\<open>None\<close> is its \<open>-1\<close>) and \<open>splice(idx, 1)\<close>.\<close>

fun findIndex :: "('a \<Rightarrow> bool) \<Rightarrow> 'a list \<Rightarrow> nat option" where
  "findIndex P [] = None"
| "findIndex P (x # xs) = (if P x then Some 0 else map_option Suc (findIndex P xs))"

definition splice1 :: "nat \<Rightarrow> 'a list \<Rightarrow> 'a list" where
  "splice1 idx xs = take idx xs @ drop (Suc idx) xs"

definition removeStudent ::
  "HelpQueueV2 \<Rightarrow> GuildMember \<Rightarrow> Awaited \<Rightarrow> (error + unit) \<times> HelpQueueV2" where
  "removeStudent q targetStudent aw =
     (case findIndex (\<lambda>student. member_id (helpee_member student) = member_id targetStudent)
             (students q) of
        None \<Rightarrow> (Inl (QueueError (displayName targetStudent @ '' is not in the queue'') (name q)), q)
      | Some idx \<Rightarrow>
          let q1 = q\<lparr>students := splice1 idx (students q)\<rparr>
          in (case hooks aw of
                Some e \<Rightarrow> Inl e
              | None \<Rightarrow> settle (render aw) (), q1))"

text \<open>\<open>removeAllStudents\<close> awaits the hooks first and empties the line after them.\<close>

definition removeAllStudents :: "HelpQueueV2 \<Rightarrow> Awaited \<Rightarrow> (error + unit) \<times> HelpQueueV2" where
  "removeAllStudents q aw =
     (case hooks aw of
        Some e \<Rightarrow> (Inl e, q)
      | None \<Rightarrow> (settle (render aw) (), q\<lparr>students := []\<rparr>))"

definition addToNotifGroup :: "HelpQueueV2 \<Rightarrow> GuildMember \<Rightarrow> (error + unit) \<times> HelpQueueV2" where
  "addToNotifGroup q targetStudent =
     (if Collection_has (notifGroup q) (member_id targetStudent)
      then (Inl (QueueError ''You are already in the notification squad.'' (name q)), q)
      else (Inr (),
            q\<lparr>notifGroup := Collection_set (member_id targetStudent) targetStudent (notifGroup q)\<rparr>))"

definition removeFromNotifGroup :: "HelpQueueV2 \<Rightarrow> GuildMember \<Rightarrow> (error + unit) \<times> HelpQueueV2" where
  "removeFromNotifGroup q targetStudent =
     (if \<not> Collection_has (notifGroup q) (member_id targetStudent)
      then (Inl (QueueError ''You are not in the notification squad.'' (name q)), q)
      else (Inr (),
            q\<lparr>notifGroup := Collection_delete (member_id targetStudent) (notifGroup q)\<rparr>))"

subsection \<open>Sequences of operations\<close>

text \<open>
  A call is one of the eight operations with its arguments, the time it runs at and
  what its awaited promises do. \<open>perform\<close> is the queue a call leaves behind, whether
  the call resolved or rejected; \<open>run\<close> performs a list of calls in order.
\<close>

datatype Operation =
    OpenQueue GuildMember bool
  | CloseQueue GuildMember
  | Enqueue GuildMember
  | DequeueWithHelper GuildMember
  | RemoveStudent GuildMember
  | RemoveAllStudents
  | AddToNotifGroup GuildMember
  | RemoveFromNotifGroup GuildMember

type_synonym Call = "Operation \<times> Date \<times> Awaited"

fun perform :: "HelpQueueV2 \<Rightarrow> Call \<Rightarrow> HelpQueueV2" where
  "perform q (OpenQueue m notify, now, aw) = snd (openQueue q m notify now aw)"
| "perform q (CloseQueue m, now, aw) = snd (closeQueue q m now aw)"
| "perform q (Enqueue m, now, aw) = snd (enqueue q m now aw)"
| "perform q (DequeueWithHelper m, now, aw) = snd (dequeueWithHelper q m aw)"
| "perform q (RemoveStudent m, now, aw) = snd (removeStudent q m aw)"
| "perform q (RemoveAllStudents, now, aw) = snd (removeAllStudents q aw)"
| "perform q (AddToNotifGroup m, now, aw) = snd (addToNotifGroup q m)"
| "perform q (RemoveFromNotifGroup m, now, aw) = snd (removeFromNotifGroup q m)"

definition run :: "HelpQueueV2 \<Rightarrow> Call list \<Rightarrow> HelpQueueV2" where
  "run q calls = foldl perform q calls"

text \<open>The two predicates of the specification's invariants.\<close>

definition isHelper :: "HelpQueueV2 \<Rightarrow> Snowflake \<Rightarrow> bool" where
  "isHelper q i = Collection_has (helpers q) i"

definition isRequester :: "HelpQueueV2 \<Rightarrow> Snowflake \<Rightarrow> bool" where
  "isRequester q i = (i \<in> set (map (\<lambda>s. member_id (helpee_member s)) (students q)))"

section \<open>The central command dispatcher (src/unnamed/part_000)\<close>

text \<open>
  What the dispatcher sends on an interaction. An embed is kept by its kind and its
  text or error (the colour is formatting); \<open>ErrorEmbed\<close> carries the bot admin role id
  where the caller passes one. \<open>Reply e ephemeral\<close> is \<open>interaction.reply\<close>, \<open>EditReply e\<close>
  is \<open>interaction.editReply\<close>.
\<close>

datatype Embed =
    SimpleEmbed string
  | ErrorEmbed error "Snowflake option"

datatype Response =
    Reply Embed bool
  | EditReply Embed

record Guild =
  guild_id :: Snowflake
  guild_name :: string

record ChatInputCommandInteraction =
  guild :: "Guild option"
  commandName :: string

text \<open>
  \<open>AttendingServerV2\<close> is not among the sources; of it \<open>process\<close> awaits
  \<open>sendLogMessage\<close>, whose outcome is the field (\<open>None\<close>: it resolves). A command
  callback is taken by what it does: the responses it sends itself and the promise it
  returns, rejected with an error or resolved with a success message or \<open>undefined\<close>.
\<close>

record AttendingServerV2 =
  sendLogMessage :: "error option"

type_synonym CommandCallback =
  "ChatInputCommandInteraction \<Rightarrow> Response list \<times> (error + string option)"

record CentralCommandDispatcher =
  commandMethodMap :: "string \<rightharpoonup> CommandCallback"
  serverMap :: "Snowflake \<rightharpoonup> AttendingServerV2"

text \<open>
  \<open>isServerInteraction\<close>: \<open>interaction.guild?.id\<close> is undefined without a guild, and
  \<open>!serverId\<close> also holds of the empty string. The template prints an undefined guild
  name as \<open>undefined\<close>.
\<close>

definition notInitializedMessage :: "ChatInputCommandInteraction \<Rightarrow> string" where
  "notInitializedMessage i =
     ''I can only accept server based interactions. '' @
     ''Are you sure '' @ (case guild i of None \<Rightarrow> ''undefined'' | Some g \<Rightarrow> guild_name g) @
     '' has a initialized YABOB?''"

definition isServerInteraction ::
  "CentralCommandDispatcher \<Rightarrow> ChatInputCommandInteraction \<Rightarrow> error + string" where
  "isServerInteraction d i =
     (case map_option guild_id (guild i) of
        None \<Rightarrow> Inl (CommandParseError (notInitializedMessage i))
      | Some serverId \<Rightarrow>
          if serverId = [] \<or> serverMap d serverId = None
          then Inl (CommandParseError (notInitializedMessage i))
          else Inr serverId)"

text \<open>
  \<open>process\<close> returns how its promise settles and the responses sent on the interaction,
  in order. Its first line awaits \<open>isServerInteraction\<close>: a rejection is thrown there,
  and the \<open>?? 'unknown'\<close> behind it only replaces a null or undefined value, which a
  resolved server id never is. An empty success message is falsy and is not sent.
  Discord's own \<open>editReply\<close> is taken to resolve.
\<close>

definition process ::
  "CentralCommandDispatcher \<Rightarrow> ChatInputCommandInteraction \<Rightarrow> (error + unit) \<times> Response list" where
  "process d i =
     (case isServerInteraction d i of
        Inl e \<Rightarrow> (Inl e, [])
      | Inr serverId \<Rightarrow>
          let processing = [EditReply (SimpleEmbed ''Processing command...'')] in
          (case Option.bind (serverMap d serverId) sendLogMessage of
             Some e \<Rightarrow> (Inl e, processing)
           | None \<Rightarrow>
               (case commandMethodMap d (commandName i) of
                  None \<Rightarrow>
                    (Inr (),
                     processing @
                     [EditReply (ErrorEmbed
                        (CommandNotImplementedError ''This command does not exist.'') None)])
                | Some commandMethod \<Rightarrow>
                    (case commandMethod i of
                       (own, Inr successMsg) \<Rightarrow>
                         (Inr (),
                          processing @ own @
                          (case successMsg of
                             None \<Rightarrow> []
                           | Some msg \<Rightarrow> if msg = [] then [] else [EditReply (SimpleEmbed msg)]))
                     | (own, Inl err) \<Rightarrow>
                         (Inr (), processing @ own @ [EditReply (ErrorEmbed err None)])))))"

definition errorReplies :: "Response list \<Rightarrow> Response list" where
  "errorReplies rs =
     filter (\<lambda>r. case r of
                Reply (ErrorEmbed e a) eph \<Rightarrow> True
              | EditReply (ErrorEmbed e a) \<Rightarrow> True
              | _ \<Rightarrow> False) rs"

section \<open>The interaction processors and the handler maps (src/unnamed/part_001)\<close>

subsection \<open>Handler tables\<close>

text \<open>
  A method map is a JavaScript object from names to handlers. Buttons, select menus
  and modals share the shape \<open>{guildMethodMap: {queue, other}, dmMethodMap}\<close>; buttons
  and select menus add their set of names that skip the progress message.
\<close>

record 'h CommandHandlerProps =
  methodMap :: "string \<rightharpoonup> 'h"
  skipProgressMessageCommands :: "string set"

record 'h GuildMethodMap =
  queue :: "string \<rightharpoonup> 'h"
  other :: "string \<rightharpoonup> 'h"

record 'h ComponentHandlerProps =
  guildMethodMap :: "'h GuildMethodMap"
  dmMethodMap :: "string \<rightharpoonup> 'h"

record 'h ButtonHandlerProps = "'h ComponentHandlerProps" +
  skipProgressMessageButtons :: "string set"

record 'h SelectMenuHandlerProps = "'h ComponentHandlerProps" +
  skipProgressMessageSelectMenus :: "string set"

type_synonym 'h ModalSubmitHandlerProps = "'h ComponentHandlerProps"

record ('c, 'b, 's, 'm) InteractionExtension =
  commandMap :: "'c CommandHandlerProps"
  buttonMap :: "'b ButtonHandlerProps"
  selectMenuMap :: "'s SelectMenuHandlerProps"
  modalMap :: "'m ModalSubmitHandlerProps"

type_synonym ('c, 'b, 's, 'm) MethodMaps =
  "'c CommandHandlerProps \<times> 'b ButtonHandlerProps \<times>
   's SelectMenuHandlerProps \<times> 'm ModalSubmitHandlerProps"

subsection \<open>combineMethodMaps\<close>

text \<open>
  \<open>Array.prototype.reduce\<close> without an initial value starts from the first element and
  throws a TypeError on an empty array (\<open>None\<close>). \<open>Object.assign(prev, curr)\<close> gives
  \<open>curr\<close>'s entry for every key \<open>curr\<close> has, as does the spread \<open>{...a, ...b}\<close> for \<open>b\<close>.
\<close>

fun reduce :: "('a \<Rightarrow> 'a \<Rightarrow> 'a) \<Rightarrow> 'a list \<Rightarrow> 'a option" where
  "reduce f [] = None"
| "reduce f (x # xs) = Some (foldl f x xs)"

definition Object_assign :: "('k \<rightharpoonup> 'v) \<Rightarrow> ('k \<rightharpoonup> 'v) \<Rightarrow> ('k \<rightharpoonup> 'v)" where
  "Object_assign target source = target ++ source"

definition spreadSets :: "'a set \<Rightarrow> 'a set list \<Rightarrow> 'a set" where
  "spreadSets base sets = base \<union> \<Union> (set sets)"

text \<open>
  The four base tables are constants of modules that are not among the sources; they
  are the first argument. \<open>flatMap\<close> over a callback that returns an object, not an
  array, is \<open>map\<close>.
\<close>

definition combineMethodMaps ::
  "('c, 'b, 's, 'm) MethodMaps \<Rightarrow> ('c, 'b, 's, 'm) InteractionExtension list \<Rightarrow>
   ('c, 'b, 's, 'm) MethodMaps option" where
  "combineMethodMaps base interactionExtensions =
     (case base of
        (baseYabobCommandMap, baseYabobButtonMethodMap, baseYabobSelectMenuMap,
         baseYabobModalMap) \<Rightarrow>
     if length interactionExtensions = 0
     then Some (baseYabobCommandMap, baseYabobButtonMethodMap, baseYabobSelectMenuMap,
                baseYabobModalMap)
     else do {
       commands \<leftarrow> reduce Object_assign
         (map (\<lambda>m. methodMap m) (map (\<lambda>ext. commandMap ext) interactionExtensions));
       buttonsQueue \<leftarrow> reduce Object_assign
         (map (\<lambda>b. queue (guildMethodMap b)) (map (\<lambda>ext. buttonMap ext) interactionExtensions));
       buttonsOther \<leftarrow> reduce Object_assign
         (map (\<lambda>b. other (guildMethodMap b)) (map (\<lambda>ext. buttonMap ext) interactionExtensions));
       buttonsDm \<leftarrow> reduce Object_assign
         (map (\<lambda>b. dmMethodMap b) (map (\<lambda>ext. buttonMap ext) interactionExtensions));
       menusQueue \<leftarrow> reduce Object_assign
         (map (\<lambda>s. queue (guildMethodMap s))
            (map (\<lambda>ext. selectMenuMap ext) interactionExtensions));
       menusOther \<leftarrow> reduce Object_assign
         (map (\<lambda>s. other (guildMethodMap s))
            (map (\<lambda>ext. selectMenuMap ext) interactionExtensions));
       menusDm \<leftarrow> reduce Object_assign
         (map (\<lambda>s. dmMethodMap s) (map (\<lambda>ext. selectMenuMap ext) interactionExtensions));
       modalsQueue \<leftarrow> reduce Object_assign
         (map (\<lambda>m. queue (guildMethodMap m)) (map (\<lambda>ext. modalMap ext) interactionExtensions));
       modalsOther \<leftarrow> reduce Object_assign
         (map (\<lambda>m. other (guildMethodMap m)) (map (\<lambda>ext. modalMap ext) interactionExtensions));
       modalsDm \<leftarrow> reduce Object_assign
         (map (\<lambda>m. dmMethodMap m) (map (\<lambda>ext. modalMap ext) interactionExtensions));
       Some
        (\<lparr>methodMap = methodMap baseYabobCommandMap ++ commands,
          skipProgressMessageCommands =
            spreadSets (skipProgressMessageCommands baseYabobCommandMap)
              (map (\<lambda>ext. skipProgressMessageCommands (commandMap ext))
                 interactionExtensions)\<rparr>,
         \<lparr>guildMethodMap =
            \<lparr>queue = queue (guildMethodMap baseYabobButtonMethodMap) ++ buttonsQueue,
             other = other (guildMethodMap baseYabobButtonMethodMap) ++ buttonsOther\<rparr>,
          dmMethodMap = dmMethodMap baseYabobButtonMethodMap ++ buttonsDm,
          skipProgressMessageButtons =
            spreadSets (skipProgressMessageButtons baseYabobButtonMethodMap)
              (map (\<lambda>ext. skipProgressMessageButtons (buttonMap ext))
                 interactionExtensions)\<rparr>,
         \<lparr>guildMethodMap =
            \<lparr>queue = queue (guildMethodMap baseYabobSelectMenuMap) ++ menusQueue,
             other = other (guildMethodMap baseYabobSelectMenuMap) ++ menusOther\<rparr>,
          dmMethodMap = dmMethodMap baseYabobSelectMenuMap ++ menusDm,
          skipProgressMessageSelectMenus =
            spreadSets (skipProgressMessageSelectMenus baseYabobSelectMenuMap)
              (map (\<lambda>ext. skipProgressMessageSelectMenus (selectMenuMap ext))
                 interactionExtensions)\<rparr>,
         \<lparr>guildMethodMap =
            \<lparr>queue = queue (guildMethodMap baseYabobModalMap) ++ modalsQueue,
             other = other (guildMethodMap baseYabobModalMap) ++ modalsOther\<rparr>,
          dmMethodMap = dmMethodMap baseYabobModalMap ++ modalsDm\<rparr>)
     })"

subsection \<open>The processors\<close>

text \<open>
  Of an interaction the processors read its kind, its custom id, its guild id, whether
  it is in a cached guild and whether it is repliable. Its changing part, threaded
  through the calls, is the \<open>replied\<close> flag and the responses sent so far.
\<close>

datatype InteractionType =
    ChatInputCommand | Button | StringSelectMenu | ModalSubmit | OtherInteraction

record Interaction =
  interactionType :: InteractionType
  customId :: string
  guildId :: "Snowflake option"
  inCachedGuild :: bool
  isRepliable :: bool

record InteractionState =
  replied :: bool
  sent :: "Response list"

definition reply :: "Embed \<Rightarrow> bool \<Rightarrow> InteractionState \<Rightarrow> InteractionState" where
  "reply e ephemeral st = st\<lparr>sent := sent st @ [Reply e ephemeral], replied := True\<rparr>"

definition editReply :: "Embed \<Rightarrow> InteractionState \<Rightarrow> InteractionState" where
  "editReply e st = st\<lparr>sent := sent st @ [EditReply e]\<rparr>"

text \<open>
  A handler runs on the interaction, may respond on it, and rejects with an error or
  resolves. The component id parser and \<open>AttendingServer.get\<close> are not among the sources:
  the parser is a parameter whose result is \<open>ok\<close> with a value (\<open>Some\<close>) or not, the
  lookup a parameter that throws (\<open>Inl\<close>) or returns the server. The server's
  \<open>sendLogMessage\<close> is not awaited, and Discord's own \<open>reply\<close> and \<open>editReply\<close> are taken
  to resolve.
\<close>

type_synonym Handler = "InteractionState \<Rightarrow> error option \<times> InteractionState"

datatype ComponentLocation = Dm | Queue | Other

type_synonym Decompressor = "string \<Rightarrow> (ComponentLocation \<times> string \<times> Snowflake) option"

record AttendingServer =
  botAdminRoleID :: Snowflake

definition replyWithError ::
  "Interaction \<Rightarrow> error \<Rightarrow> Snowflake \<Rightarrow> InteractionState \<Rightarrow> InteractionState" where
  "replyWithError interaction err adminRole st =
     (if \<not> isRepliable interaction then st
      else if replied st then editReply (ErrorEmbed err (Some adminRole)) st
      else reply (ErrorEmbed err (Some adminRole)) True st)"

text \<open>\<open>guildMethodMap[type][name]\<close>, read only where \<open>type\<close> is not \<open>dm\<close>.\<close>

definition guildHandler :: "'h GuildMethodMap \<Rightarrow> ComponentLocation \<Rightarrow> string \<Rightarrow> 'h option" where
  "guildHandler gm ty nm =
     (case ty of Queue \<Rightarrow> queue gm nm | Other \<Rightarrow> other gm nm | Dm \<Rightarrow> None)"

text \<open>\<open>await handle?.(interaction).catch(...)\<close>: nothing without a handler.\<close>

definition invoke ::
  "Handler option \<Rightarrow> Interaction \<Rightarrow> AttendingServer \<Rightarrow> InteractionState \<Rightarrow> InteractionState" where
  "invoke handle interaction server st =
     (case handle of
        None \<Rightarrow> st
      | Some h \<Rightarrow>
          (case h st of
             (None, st') \<Rightarrow> st'
           | (Some err, st') \<Rightarrow> replyWithError interaction err (botAdminRoleID server) st'))"

definition processButton ::
  "Decompressor \<Rightarrow> (Snowflake \<Rightarrow> error + AttendingServer) \<Rightarrow> Handler ButtonHandlerProps \<Rightarrow>
   Interaction \<Rightarrow> InteractionState \<Rightarrow> (error + unit) \<times> InteractionState" where
  "processButton safeDecompressComponentId AttendingServer_get completeButtonMap interaction st =
     (if interactionType interaction \<noteq> Button then (Inr (), st)
      else case safeDecompressComponentId (customId interaction) of
        None \<Rightarrow> (Inr (), st)
      | Some (ty, buttonName, serverId) \<Rightarrow>
          (case AttendingServer_get
                  (case guildId interaction of Some g \<Rightarrow> g | None \<Rightarrow> serverId) of
             Inl e \<Rightarrow> (Inl e, st)
           | Inr server \<Rightarrow>
               let st1 =
                     (if buttonName \<notin> skipProgressMessageButtons completeButtonMap
                      then reply (SimpleEmbed (''Processing button `'' @ buttonName @ ''`...''))
                             True st
                      else st)
               in if inCachedGuild interaction \<and> ty \<noteq> Dm
                  then (Inr (),
                        invoke (guildHandler (guildMethodMap completeButtonMap) ty buttonName)
                          interaction server st1)
                  else (Inr (),
                        invoke (dmMethodMap completeButtonMap buttonName)
                          interaction server st1)))"

definition processSelectMenu ::
  "Decompressor \<Rightarrow> (Snowflake \<Rightarrow> error + AttendingServer) \<Rightarrow> Handler SelectMenuHandlerProps \<Rightarrow>
   Interaction \<Rightarrow> InteractionState \<Rightarrow> (error + unit) \<times> InteractionState" where
  "processSelectMenu safeDecompressComponentId AttendingServer_get completeSelectMenuMap
     interaction st =
     (if interactionType interaction \<noteq> StringSelectMenu then (Inr (), st)
      else case safeDecompressComponentId (customId interaction) of
        None \<Rightarrow> (Inr (), st)
      | Some (ty, selectMenuName, serverId) \<Rightarrow>
          (case AttendingServer_get
                  (case guildId interaction of Some g \<Rightarrow> g | None \<Rightarrow> serverId) of
             Inl e \<Rightarrow> (Inl e, st)
           | Inr server \<Rightarrow>
               let st1 =
                     (if selectMenuName \<notin> skipProgressMessageSelectMenus completeSelectMenuMap
                      then reply (SimpleEmbed (''Processing button `'' @ selectMenuName @ ''`''))
                             True st
                      else st)
               in if inCachedGuild interaction \<and> ty \<noteq> Dm
                  then (Inr (),
                        invoke
                          (guildHandler (guildMethodMap completeSelectMenuMap) ty selectMenuName)
                          interaction server st1)
                  else (Inr (),
                        invoke (dmMethodMap completeSelectMenuMap selectMenuName)
                          interaction server st1)))"

definition processModalSubmit ::
  "Decompressor \<Rightarrow> (Snowflake \<Rightarrow> error + AttendingServer) \<Rightarrow> Handler ModalSubmitHandlerProps \<Rightarrow>
   Interaction \<Rightarrow> InteractionState \<Rightarrow> (error + unit) \<times> InteractionState" where
  "processModalSubmit safeDecompressComponentId AttendingServer_get completeModalMap
     interaction st =
     (if interactionType interaction \<noteq> ModalSubmit then (Inr (), st)
      else case safeDecompressComponentId (customId interaction) of
        None \<Rightarrow> (Inr (), st)
      | Some (ty, modalName, serverId) \<Rightarrow>
          (case AttendingServer_get
                  (case guildId interaction of Some g \<Rightarrow> g | None \<Rightarrow> serverId) of
             Inl e \<Rightarrow> (Inl e, st)
           | Inr server \<Rightarrow>
               if inCachedGuild interaction \<and> ty \<noteq> Dm
               then (Inr (),
                     invoke (guildHandler (guildMethodMap completeModalMap) ty modalName)
                       interaction server st)
               else (Inr (),
                     invoke (dmMethodMap completeModalMap modalName)
                       interaction server st)))"

section \<open>Statements and sample data\<close>

subsection \<open>Notions the statements use\<close>

text \<open>
  \<open>open_inv\<close> is the invariant that ties the open flag to the helper collection,
  \<open>roles_apart\<close> the one that keeps every helpee of the line out of the helpers.
  \<open>lastWins\<close> is the merge rule "the last table that has the key decides, the base
  table decides when none has it", written on its own and not read off the code.
  \<open>errorResponse\<close> is the response that carries an error to the user: an edit when
  the interaction was already replied to, a new ephemeral reply when not.
\<close>

definition open_inv :: "HelpQueueV2 \<Rightarrow> bool" where
  "open_inv q = (isOpen q = (0 < Collection_size (helpers q)))"

definition roles_apart :: "HelpQueueV2 \<Rightarrow> bool" where
  "roles_apart q =
     list_all (\<lambda>s. \<not> Collection_has (helpers q) (member_id (helpee_member s))) (students q)"

fun opensQueue :: "Operation \<Rightarrow> bool" where
  "opensQueue (OpenQueue m notify) = True"
| "opensQueue _ = False"


definition errorResponse :: "error \<Rightarrow> AttendingServer \<Rightarrow> InteractionState \<Rightarrow> Response" where
  "errorResponse err server st =
     (if replied st then EditReply (ErrorEmbed err (Some (botAdminRoleID server)))
      else Reply (ErrorEmbed err (Some (botAdminRoleID server))) True)"

subsection \<open>A sample queue\<close>

definition alice :: GuildMember where
  "alice = \<lparr>member_id = ''1001'', displayName = ''Alice''\<rparr>"

definition bob :: GuildMember where
  "bob = \<lparr>member_id = ''1002'', displayName = ''Bob''\<rparr>"

definition carol :: GuildMember where
  "carol = \<lparr>member_id = ''1003'', displayName = ''Carol''\<rparr>"

definition dave :: GuildMember where
  "dave = \<lparr>member_id = ''1005'', displayName = ''Dave''\<rparr>"

definition officeHours :: QueueChannel where
  "officeHours = \<lparr>queueName = ''ECS 36A'', parentCategoryId = ''77'',
     channelObj_members = [(''1001'', alice), (''1002'', bob), (''1003'', carol)]\<rparr>"

definition resolved :: Awaited where
  "resolved = \<lparr>hooks = None, render = None\<rparr>"

definition closedQueue :: HelpQueueV2 where
  "closedQueue = HelpQueueV2_constructor officeHours None"

definition staffedQueue :: HelpQueueV2 where
  "staffedQueue = run closedQueue [(OpenQueue alice False, 10, resolved)]"

definition doubleStaffedQueue :: HelpQueueV2 where
  "doubleStaffedQueue =
     run closedQueue [(OpenQueue alice False, 10, resolved), (OpenQueue dave True, 15, resolved)]"

definition waitingQueue :: HelpQueueV2 where
  "waitingQueue =
     run closedQueue
       [(OpenQueue alice False, 10, resolved), (OpenQueue dave True, 15, resolved),
        (Enqueue bob, 20, resolved), (Enqueue carol, 30, resolved)]"

definition helperInLine :: HelpQueueV2 where
  "helperInLine =
     run closedQueue
       [(OpenQueue alice False, 10, resolved), (Enqueue bob, 20, resolved),
        (OpenQueue bob False, 30, resolved)]"

text \<open>A saved line of three; the member \<open>1004\<close> has left the channel since.\<close>

definition savedLine :: QueueBackup where
  "savedLine = \<lparr>studentsInQueue =
     [\<lparr>memberId = ''1002'', waitStart_b = 5, upNext_b = True\<rparr>,
      \<lparr>memberId = ''1004'', waitStart_b = 6, upNext_b = False\<rparr>,
      \<lparr>memberId = ''1003'', waitStart_b = 7, upNext_b = False\<rparr>]\<rparr>"

subsection \<open>A sample dispatcher\<close>

definition knownServer :: AttendingServerV2 where
  "knownServer = \<lparr>sendLogMessage = None\<rparr>"

definition joinedCallback :: CommandCallback where
  "joinedCallback i = ([], Inr (Some ''Successfully joined `ECS 36A`.''))"

definition dispatcher :: CentralCommandDispatcher where
  "dispatcher = \<lparr>commandMethodMap = [''enqueue'' \<mapsto> joinedCallback],
                  serverMap = [''900'' \<mapsto> knownServer]\<rparr>"

definition strangerRequest :: ChatInputCommandInteraction where
  "strangerRequest = \<lparr>guild = Some \<lparr>guild_id = ''901'', guild_name = ''Elsewhere''\<rparr>,
                       commandName = ''enqueue''\<rparr>"

definition guildlessRequest :: ChatInputCommandInteraction where
  "guildlessRequest = \<lparr>guild = None, commandName = ''enqueue''\<rparr>"

subsection \<open>Sample components and handler tables\<close>

definition sampleDecompress :: Decompressor where
  "sampleDecompress s =
     (if s = ''queue|join|900'' then Some (Queue, ''join'', ''900'') else None)"

definition sampleServers :: "Snowflake \<Rightarrow> error + AttendingServer" where
  "sampleServers sid =
     (if sid = ''900'' then Inr \<lparr>botAdminRoleID = ''1''\<rparr>
      else Inl (ExternalError ''not initialized''))"

definition closedHandler :: Handler where
  "closedHandler st = (Some (QueueError ''Queue is not open.'' ''ECS 36A''), st)"

definition sampleModals :: "Handler ModalSubmitHandlerProps" where
  "sampleModals =
     \<lparr>guildMethodMap = \<lparr>queue = [''join'' \<mapsto> closedHandler], other = Map.empty\<rparr>,
      dmMethodMap = Map.empty\<rparr>"

definition sampleButtons :: "Handler ButtonHandlerProps" where
  "sampleButtons =
     \<lparr>guildMethodMap = \<lparr>queue = [''join'' \<mapsto> closedHandler], other = Map.empty\<rparr>,
      dmMethodMap = Map.empty, skipProgressMessageButtons = {}\<rparr>"

definition sampleMenus :: "Handler SelectMenuHandlerProps" where
  "sampleMenus =
     \<lparr>guildMethodMap = \<lparr>queue = [''join'' \<mapsto> closedHandler], other = Map.empty\<rparr>,
      dmMethodMap = Map.empty, skipProgressMessageSelectMenus = {''join''}\<rparr>"

definition component :: "InteractionType \<Rightarrow> string \<Rightarrow> Interaction" where
  "component ty cid =
     \<lparr>interactionType = ty, customId = cid, guildId = Some ''900'',
      inCachedGuild = True, isRepliable = True\<rparr>"

definition untouched :: InteractionState where
  "untouched = \<lparr>replied = False, sent = []\<rparr>"







section \<open>Facts about the model\<close>

subsection \<open>Collections and awaited promises\<close>

lemma Collection_size_pos: "(0 < Collection_size c) = (c \<noteq> [])"
  by (simp add: Collection_size_def)

lemma Collection_set_not_Nil: "Collection_set k v c \<noteq> []"
  by (cases c) (simp_all add: Collection_set_def)

lemma Collection_has_set: "Collection_has (Collection_set k v c) k"
  by (simp add: Collection_has_def Collection_set_def update_conv')


lemma Collection_size_set:
  "\<not> Collection_has c k \<Longrightarrow> Collection_size (Collection_set k v c) = Suc (Collection_size c)"
  by (simp add: Collection_size_def Collection_set_def Collection_has_def update_keys
      map_of_eq_None_iff length_remdups_card_conv)

lemma Collection_size_delete:
  assumes "Collection_has c k"
  shows "Suc (Collection_size (Collection_delete k c)) = Collection_size c"
proof -
  from assms have k: "k \<in> set (map fst c)"
    by (simp add: Collection_has_def map_of_eq_None_iff)
  have "Collection_size (Collection_delete k c) = card (set (map fst c) - {k})"
    by (simp add: Collection_size_def Collection_delete_def delete_keys length_remdups_card_conv)
  also have "Suc \<dots> = card (set (map fst c))"
    using k by (metis List.finite_set card_Suc_Diff1)
  finally show ?thesis
    by (simp add: Collection_size_def length_remdups_card_conv)
qed

subsection \<open>The waiting line\<close>

lemma find_requester:
  "(find (\<lambda>s. member_id (helpee_member s) = i) (students q) = None) = (\<not> isRequester q i)"
  by (auto simp: isRequester_def find_None_iff)

lemma findIndex_None: "(findIndex P xs = None) = (\<forall>x \<in> set xs. \<not> P x)"
  by (induction xs) auto

lemma findIndex_Some:
  "findIndex P xs = Some i \<Longrightarrow>
     \<exists>pre x post. xs = pre @ x # post \<and> length pre = i \<and> P x \<and> (\<forall>y \<in> set pre. \<not> P y)"
proof (induction xs arbitrary: i)
  case Nil
  then show ?case by simp
next
  case (Cons a xs)
  show ?case
  proof (cases "P a")
    case True
    with Cons.prems have "i = 0" by simp
    with True show ?thesis by (intro exI[of _ "[]"] exI[of _ a] exI[of _ xs]) simp
  next
    case False
    with Cons.prems obtain j where j: "findIndex P xs = Some j" "i = Suc j"
      by auto
    from Cons.IH[OF j(1)] obtain pre x post where
      "xs = pre @ x # post" "length pre = j" "P x" "\<forall>y \<in> set pre. \<not> P y"
      by blast
    with False j(2) show ?thesis
      by (intro exI[of _ "a # pre"] exI[of _ x] exI[of _ post]) simp
  qed
qed

lemma splice1_append: "splice1 (length pre) (pre @ x # post) = pre @ post"
  by (simp add: splice1_def)

lemma foldl_restore:
  "foldl (restoreStudent ch) acc bs =
     acc @ List.map_filter
       (\<lambda>sb. map_option
          (\<lambda>m. \<lparr>waitStart = waitStart_b sb, upNext = upNext_b sb, helpee_member = m\<rparr>)
          (Collection_get (channelObj_members ch) (memberId sb))) bs"
  by (induction bs arbitrary: acc)
     (auto simp: restoreStudent_def List.map_filter_simps split: option.splits)

lemma restored_fields:
  "(let kept = filter (\<lambda>sb. Collection_has (channelObj_members ch) (memberId sb)) bs;
        line = List.map_filter
          (\<lambda>sb. map_option
             (\<lambda>m. \<lparr>waitStart = waitStart_b sb, upNext = upNext_b sb, helpee_member = m\<rparr>)
             (Collection_get (channelObj_members ch) (memberId sb))) bs
    in map waitStart line = map waitStart_b kept \<and>
       map upNext line = map upNext_b kept \<and>
       map (\<lambda>s. Some (helpee_member s)) line =
         map (\<lambda>sb. Collection_get (channelObj_members ch) (memberId sb)) kept)"
  by (induction bs)
     (auto simp: List.map_filter_simps Collection_has_def Collection_get_def Let_def
           split: option.splits)

subsection \<open>The open flag along a run\<close>

lemma perform_open_inv:
  assumes inv: "open_inv q"
  shows "open_inv (perform q c)"
proof -
  obtain opn now aw where c: "c = (opn, now, aw)" by (cases c)
  show ?thesis
  proof (cases opn)
    case (OpenQueue m n)
    with c inv show ?thesis
      by (simp add: open_inv_def openQueue_def Let_def Collection_size_pos Collection_set_not_Nil)
  next
    case (CloseQueue m)
    with c inv show ?thesis
      by (simp add: open_inv_def closeQueue_def Let_def split: option.splits)
  next
    case (Enqueue m)
    with c inv show ?thesis
      by (simp add: open_inv_def enqueue_def Let_def)
  next
    case (DequeueWithHelper m)
    with c inv show ?thesis
      by (simp add: open_inv_def dequeueWithHelper_def Let_def Collection_size_pos
          Collection_set_not_Nil split: option.splits list.splits)
  next
    case (RemoveStudent m)
    with c inv show ?thesis
      by (simp add: open_inv_def removeStudent_def Let_def split: option.splits)
  next
    case RemoveAllStudents
    with c inv show ?thesis
      by (simp add: open_inv_def removeAllStudents_def split: option.splits)
  next
    case (AddToNotifGroup m)
    with c inv show ?thesis
      by (simp add: open_inv_def addToNotifGroup_def)
  next
    case (RemoveFromNotifGroup m)
    with c inv show ?thesis
      by (simp add: open_inv_def removeFromNotifGroup_def)
  qed
qed

lemma run_open_inv: "open_inv q \<Longrightarrow> open_inv (run q calls)"
  unfolding run_def
  by (induction calls arbitrary: q) (simp_all add: perform_open_inv)

lemma constructor_open_inv: "open_inv (HelpQueueV2_constructor ch backupData)"
  by (simp add: open_inv_def HelpQueueV2_constructor_def Collection_size_def)

subsection \<open>Helpers and helpees along a run\<close>

text \<open>
  Every operation but \<open>openQueue\<close> keeps the helpees of the line out of the helpers;
  \<open>enqueue\<close> does so by its third check.
\<close>

lemma roles_apart_iff: "roles_apart q = (\<forall>i. \<not> (isHelper q i \<and> isRequester q i))"
  by (auto simp: roles_apart_def isHelper_def isRequester_def list_all_iff)

lemma Collection_has_delete:
  "Collection_has (Collection_delete k c) k' \<Longrightarrow> Collection_has c k'"
  by (simp add: Collection_has_def Collection_delete_def delete_conv' split: if_splits)

lemma set_splice1: "set (splice1 i xs) \<subseteq> set xs"
  unfolding splice1_def
  by (metis Un_least set_append set_drop_subset set_take_subset)

lemma perform_roles_apart:
  assumes "roles_apart q" and "\<not> opensQueue (fst c)"
  shows "roles_apart (perform q c)"
proof -
  obtain opn now aw where c: "c = (opn, now, aw)" by (cases c)
  show ?thesis
  proof (cases opn)
    case (OpenQueue m n)
    with c assms(2) show ?thesis by simp
  next
    case (CloseQueue m)
    with c assms(1) show ?thesis
      by (auto simp: roles_apart_def closeQueue_def Let_def list_all_iff
          dest: Collection_has_delete split: option.splits)
  next
    case (Enqueue m)
    with c assms(1) show ?thesis
      by (auto simp: roles_apart_def enqueue_def Let_def list_all_iff)
  next
    case (DequeueWithHelper m)
    with c assms(1) show ?thesis
      by (force simp: roles_apart_def dequeueWithHelper_def Let_def list_all_iff
          Collection_has_def Collection_get_def Collection_set_def update_conv'
          split: option.splits list.splits)
  next
    case (RemoveStudent m)
    with c assms(1) set_splice1 show ?thesis
      by (fastforce simp: roles_apart_def removeStudent_def Let_def list_all_iff
          split: option.splits)
  next
    case RemoveAllStudents
    with c assms(1) show ?thesis
      by (simp add: roles_apart_def removeAllStudents_def split: option.splits)
  next
    case (AddToNotifGroup m)
    with c assms(1) show ?thesis
      by (simp add: roles_apart_def addToNotifGroup_def)
  next
    case (RemoveFromNotifGroup m)
    with c assms(1) show ?thesis
      by (simp add: roles_apart_def removeFromNotifGroup_def)
  qed
qed

subsection \<open>The dispatcher on an unknown origin\<close>

lemma isServerInteraction_unknown:
  "(\<forall>g. guild i = Some g \<longrightarrow> guild_id g = [] \<or> serverMap d (guild_id g) = None) \<Longrightarrow>
   isServerInteraction d i = Inl (CommandParseError (notInitializedMessage i))"
  by (auto simp: isServerInteraction_def split: option.splits)

lemma process_rejected_origin:
  "isServerInteraction d i = Inl e \<Longrightarrow> process d i = (Inl e, [])"
  by (simp add: process_def)

subsection \<open>The sample queues, evaluated\<close>

lemma closedQueue_eval:
  "closedQueue =
     \<lparr>helpers = [], students = [], notifGroup = [], isOpen = False, queueChannel = officeHours\<rparr>"
  by (simp add: closedQueue_def HelpQueueV2_constructor_def)

lemma staffedQueue_eval:
  "staffedQueue =
     \<lparr>helpers = [(''1001'', \<lparr>helpStart = 10, helpEnd = None, helpedMembers = [],
                             helper_member = alice\<rparr>)],
      students = [], notifGroup = [], isOpen = True, queueChannel = officeHours\<rparr>"
  by (simp add: staffedQueue_def closedQueue_eval run_def openQueue_def Let_def
      Collection_has_def Collection_set_def alice_def)

lemma doubleStaffedQueue_eval:
  "doubleStaffedQueue =
     \<lparr>helpers = [(''1001'', \<lparr>helpStart = 10, helpEnd = None, helpedMembers = [],
                             helper_member = alice\<rparr>),
                 (''1005'', \<lparr>helpStart = 15, helpEnd = None, helpedMembers = [],
                             helper_member = dave\<rparr>)],
      students = [], notifGroup = [], isOpen = True, queueChannel = officeHours\<rparr>"
  by (simp add: doubleStaffedQueue_def closedQueue_eval run_def openQueue_def Let_def
      Collection_has_def Collection_set_def alice_def dave_def)

lemma waitingQueue_eval:
  "waitingQueue =
     \<lparr>helpers = [(''1001'', \<lparr>helpStart = 10, helpEnd = None, helpedMembers = [],
                             helper_member = alice\<rparr>),
                 (''1005'', \<lparr>helpStart = 15, helpEnd = None, helpedMembers = [],
                             helper_member = dave\<rparr>)],
      students = [\<lparr>waitStart = 20, upNext = True, helpee_member = bob\<rparr>,
                  \<lparr>waitStart = 30, upNext = False, helpee_member = carol\<rparr>],
      notifGroup = [], isOpen = True, queueChannel = officeHours\<rparr>"
  by (simp add: waitingQueue_def closedQueue_eval run_def openQueue_def enqueue_def Let_def
      Collection_has_def Collection_set_def alice_def bob_def carol_def dave_def resolved_def
      settle_def)

lemma sample_names:
  "name closedQueue = ''ECS 36A''" "name staffedQueue = ''ECS 36A''"
  "name doubleStaffedQueue = ''ECS 36A''" "name waitingQueue = ''ECS 36A''"
  by (simp_all add: name_def closedQueue_eval staffedQueue_eval doubleStaffedQueue_eval
      waitingQueue_eval officeHours_def)

subsection \<open>Merging handler tables\<close>





section \<open>The claims\<close>

text \<open>
  C1. A command whose origin is no known, initialized server should fail with the
  unknown-origin error, get exactly one error reply, and let no fault escape. On the
  code it does not: \<open>process\<close> awaits \<open>isServerInteraction\<close> first, the rejection is
  thrown out of \<open>process\<close> (the error is a \<open>CommandParseError\<close>), and no response at all
  has been sent by then. Evaluated for a guild that is not in the server map and for a
  request without a guild.
\<close>

theorem process_unknown_origin:
  "process dispatcher strangerRequest =
     (Inl (CommandParseError
        ''I can only accept server based interactions. Are you sure Elsewhere has a initialized YABOB?''),
      []) \<and>
   process dispatcher guildlessRequest =
     (Inl (CommandParseError
        ''I can only accept server based interactions. Are you sure undefined has a initialized YABOB?''),
      []) \<and>
   errorReplies (snd (process dispatcher strangerRequest)) = [] \<and>
   errorReplies (snd (process dispatcher guildlessRequest)) = []"
  by (simp add: process_def isServerInteraction_def notInitializedMessage_def dispatcher_def
      strangerRequest_def guildlessRequest_def errorReplies_def)




text \<open>
  C3. No principal should be a helper and a requester of one queue at once, in any state
  reached from a fresh queue, and \<open>openQueue\<close> should keep that as \<open>enqueue\<close> does. It does
  not: \<open>enqueue\<close> refuses a helper, but \<open>openQueue\<close> only asks whether its caller is a
  helper already, never whether the caller waits in the line. After Alice opens the
  queue and Bob joins the line, Bob's own \<open>openQueue\<close> resolves and leaves him both.
\<close>

theorem helper_and_requester_reached:
  "fst (openQueue
          (run closedQueue [(OpenQueue alice False, 10, resolved), (Enqueue bob, 20, resolved)])
          bob False 30 resolved) = Inr () \<and>
   isHelper helperInLine (member_id bob) \<and>
   isRequester helperInLine (member_id bob)"
  by (simp add: helperInLine_def closedQueue_eval run_def openQueue_def enqueue_def Let_def
      Collection_has_def Collection_set_def settle_def resolved_def alice_def bob_def
      isHelper_def isRequester_def)

text \<open>
  C4. In every state a list of calls reaches from a newly constructed queue (with or
  without backup), \<open>isOpen\<close> equals \<open>helpers.size > 0\<close>. Opening by a principal who is not a
  helper sets \<open>isOpen\<close> and adds the helper; closing the only helper clears \<open>isOpen\<close>;
  closing one helper of several leaves it set.
\<close>

theorem isOpen_iff_helpers:
  "(isOpen (run (HelpQueueV2_constructor ch backupData) calls) =
      (Collection_size (helpers (run (HelpQueueV2_constructor ch backupData) calls)) > 0)) \<and>
   (\<not> Collection_has (helpers q) (member_id m) \<longrightarrow>
      isOpen (snd (openQueue q m notify now aw)) \<and>
      Collection_has (helpers (snd (openQueue q m notify now aw))) (member_id m) \<and>
      Collection_size (helpers (snd (openQueue q m notify now aw))) =
        Suc (Collection_size (helpers q))) \<and>
   (isOpen q \<and> Collection_has (helpers q) (member_id m) \<and>
    Collection_size (helpers q) = 1 \<longrightarrow>
      \<not> isOpen (snd (closeQueue q m now aw)) \<and>
      Collection_size (helpers (snd (closeQueue q m now aw))) = 0) \<and>
   (isOpen q \<and> Collection_has (helpers q) (member_id m) \<and>
    Collection_size (helpers q) > 1 \<longrightarrow>
      isOpen (snd (closeQueue q m now aw)) \<and>
      Suc (Collection_size (helpers (snd (closeQueue q m now aw)))) =
        Collection_size (helpers q))"
proof -
  have reach: "isOpen (run (HelpQueueV2_constructor ch backupData) calls) =
      (Collection_size (helpers (run (HelpQueueV2_constructor ch backupData) calls)) > 0)"
    using run_open_inv[OF constructor_open_inv] by (simp add: open_inv_def)
  have opened: "isOpen (snd (openQueue q m notify now aw)) \<and>
      Collection_has (helpers (snd (openQueue q m notify now aw))) (member_id m) \<and>
      Collection_size (helpers (snd (openQueue q m notify now aw))) =
        Suc (Collection_size (helpers q))"
    if "\<not> Collection_has (helpers q) (member_id m)"
    using that by (simp add: openQueue_def Let_def Collection_has_set Collection_size_set)
  have closed: "helpers (snd (closeQueue q m now aw)) =
        Collection_delete (member_id m) (helpers q) \<and>
      isOpen (snd (closeQueue q m now aw)) =
        (0 < Collection_size (Collection_delete (member_id m) (helpers q)))"
    if "isOpen q" "Collection_has (helpers q) (member_id m)"
    using that
    by (auto simp: closeQueue_def Let_def Collection_has_def Collection_get_def
        split: option.splits)
  have last: "\<not> isOpen (snd (closeQueue q m now aw)) \<and>
      Collection_size (helpers (snd (closeQueue q m now aw))) = 0"
    if "isOpen q" "Collection_has (helpers q) (member_id m)" "Collection_size (helpers q) = 1"
    using closed[OF that(1,2)] Collection_size_delete[OF that(2)] that(3) by simp
  have more: "isOpen (snd (closeQueue q m now aw)) \<and>
      Suc (Collection_size (helpers (snd (closeQueue q m now aw)))) =
        Collection_size (helpers q)"
    if "isOpen q" "Collection_has (helpers q) (member_id m)" "Collection_size (helpers q) > 1"
    using closed[OF that(1,2)] Collection_size_delete[OF that(2)] that(3) by simp
  from reach opened last more show ?thesis by blast
qed

theorem isOpen_iff_helpers_witness:
  "\<not> Collection_has (helpers closedQueue) (member_id alice) \<and>
   isOpen (snd (openQueue closedQueue alice False 10 resolved)) \<and>
   Collection_size (helpers (snd (openQueue closedQueue alice False 10 resolved))) = 1 \<and>
   isOpen staffedQueue \<and> Collection_has (helpers staffedQueue) (member_id alice) \<and>
   Collection_size (helpers staffedQueue) = 1 \<and>
   \<not> isOpen (snd (closeQueue staffedQueue alice 40 resolved)) \<and>
   isOpen doubleStaffedQueue \<and> Collection_has (helpers doubleStaffedQueue) (member_id alice) \<and>
   Collection_size (helpers doubleStaffedQueue) = 2 \<and>
   isOpen (snd (closeQueue doubleStaffedQueue alice 40 resolved)) \<and>
   Collection_size (helpers (snd (closeQueue doubleStaffedQueue alice 40 resolved))) = 1"
proof -
  have h1: "\<not> Collection_has (helpers closedQueue) (member_id alice)"
    "Collection_size (helpers closedQueue) = 0"
    by (simp_all add: closedQueue_eval Collection_has_def Collection_size_def)
  have h2: "isOpen staffedQueue" "Collection_has (helpers staffedQueue) (member_id alice)"
    "Collection_size (helpers staffedQueue) = 1"
    by (simp_all add: staffedQueue_eval Collection_has_def Collection_size_def alice_def)
  have h3: "isOpen doubleStaffedQueue"
    "Collection_has (helpers doubleStaffedQueue) (member_id alice)"
    "Collection_size (helpers doubleStaffedQueue) = 2"
    by (simp_all add: doubleStaffedQueue_eval Collection_has_def Collection_size_def alice_def)
  have c1: "isOpen (snd (openQueue closedQueue alice False 10 resolved)) \<and>
      Collection_size (helpers (snd (openQueue closedQueue alice False 10 resolved))) = 1"
    using isOpen_iff_helpers[where q = closedQueue and m = alice and notify = False
        and now = 10 and aw = resolved] h1
    by simp
  have c2: "\<not> isOpen (snd (closeQueue staffedQueue alice 40 resolved))"
    using isOpen_iff_helpers[where q = staffedQueue and m = alice and now = 40
        and aw = resolved] h2
    by simp
  have c3: "isOpen (snd (closeQueue doubleStaffedQueue alice 40 resolved)) \<and>
      Collection_size (helpers (snd (closeQueue doubleStaffedQueue alice 40 resolved))) = 1"
    using isOpen_iff_helpers[where q = doubleStaffedQueue and m = alice and now = 40
        and aw = resolved] h3
    by simp
  from h1 h2 h3 c1 c2 c3 show ?thesis by simp
qed

text \<open>
  C5. \<open>enqueue\<close> rejects a closed queue with "Queue is not open."; on an open queue it
  rejects a principal who is in the line with "You are already in the queue."; on an
  open queue, for a principal not in the line, it rejects a helper with "You can't
  enqueue yourself while helping."; each of the three leaves the queue as it was.
  Otherwise exactly one helpee is appended at the tail, with \<open>upNext\<close> true iff the line
  was empty, and nothing else changes; the call resolves when the awaited promises do.
  The checks run in this order, so a closed queue answers "not open" whoever asks.
\<close>

theorem enqueue_cases:
  "(\<not> isOpen q \<longrightarrow>
      enqueue q m now aw = (Inl (QueueError ''Queue is not open.'' (name q)), q)) \<and>
   (isOpen q \<and> isRequester q (member_id m) \<longrightarrow>
      enqueue q m now aw = (Inl (QueueError ''You are already in the queue.'' (name q)), q)) \<and>
   (isOpen q \<and> \<not> isRequester q (member_id m) \<and> isHelper q (member_id m) \<longrightarrow>
      enqueue q m now aw =
        (Inl (QueueError ''You can't enqueue yourself while helping.'' (name q)), q)) \<and>
   (isOpen q \<and> \<not> isRequester q (member_id m) \<and> \<not> isHelper q (member_id m) \<longrightarrow>
      snd (enqueue q m now aw) =
        q\<lparr>students := students q @
             [\<lparr>waitStart = now, upNext = (students q = []), helpee_member = m\<rparr>]\<rparr> \<and>
      (hooks aw = None \<and> render aw = None \<longrightarrow> fst (enqueue q m now aw) = Inr ()))"
  unfolding enqueue_def find_requester isHelper_def Let_def
  by (simp add: settle_def)

theorem enqueue_cases_witness:
  "\<not> isOpen closedQueue \<and>
   enqueue closedQueue bob 20 resolved =
     (Inl (QueueError ''Queue is not open.'' ''ECS 36A''), closedQueue) \<and>
   isOpen waitingQueue \<and> isRequester waitingQueue (member_id bob) \<and>
   enqueue waitingQueue bob 40 resolved =
     (Inl (QueueError ''You are already in the queue.'' ''ECS 36A''), waitingQueue) \<and>
   isOpen staffedQueue \<and> \<not> isRequester staffedQueue (member_id alice) \<and>
   isHelper staffedQueue (member_id alice) \<and>
   enqueue staffedQueue alice 40 resolved =
     (Inl (QueueError ''You can't enqueue yourself while helping.'' ''ECS 36A''), staffedQueue) \<and>
   \<not> isRequester staffedQueue (member_id bob) \<and> \<not> isHelper staffedQueue (member_id bob) \<and>
   students (snd (enqueue staffedQueue bob 20 resolved)) =
     [\<lparr>waitStart = 20, upNext = True, helpee_member = bob\<rparr>] \<and>
   fst (enqueue staffedQueue bob 20 resolved) = Inr ()"
proof -
  have h1: "\<not> isOpen closedQueue"
    by (simp add: closedQueue_eval)
  have h2: "isOpen waitingQueue" "isRequester waitingQueue (member_id bob)"
    by (simp_all add: waitingQueue_eval isRequester_def)
  have h3: "isOpen staffedQueue" "\<not> isRequester staffedQueue (member_id alice)"
    "isHelper staffedQueue (member_id alice)"
    by (simp_all add: staffedQueue_eval isRequester_def isHelper_def Collection_has_def alice_def)
  have h4: "\<not> isRequester staffedQueue (member_id bob)"
    "\<not> isHelper staffedQueue (member_id bob)"
    "hooks resolved = None" "render resolved = None" "students staffedQueue = []"
    by (simp_all add: staffedQueue_eval isRequester_def isHelper_def Collection_has_def bob_def
        resolved_def)
  have c1: "enqueue closedQueue bob 20 resolved =
      (Inl (QueueError ''Queue is not open.'' (name closedQueue)), closedQueue)"
    using enqueue_cases[of closedQueue bob 20 resolved] h1 by blast
  have c2: "enqueue waitingQueue bob 40 resolved =
      (Inl (QueueError ''You are already in the queue.'' (name waitingQueue)), waitingQueue)"
    using enqueue_cases[of waitingQueue bob 40 resolved] h2 by blast
  have c3: "enqueue staffedQueue alice 40 resolved =
      (Inl (QueueError ''You can't enqueue yourself while helping.'' (name staffedQueue)),
       staffedQueue)"
    using enqueue_cases[of staffedQueue alice 40 resolved] h3 by blast
  have c4: "snd (enqueue staffedQueue bob 20 resolved) =
      staffedQueue\<lparr>students := students staffedQueue @
        [\<lparr>waitStart = 20, upNext = (students staffedQueue = []), helpee_member = bob\<rparr>]\<rparr> \<and>
      fst (enqueue staffedQueue bob 20 resolved) = Inr ()"
    using enqueue_cases[of staffedQueue bob 20 resolved] h3(1) h4 by blast
  from h1 h2 h3 h4 c1 c2 c3 c4 show ?thesis by (simp add: sample_names)
qed



text \<open>
  C7, as the specification has it: every request that ends in failure gets an error
  reply, also a button, select menu or form submission whose component id does not
  parse. It fails on the code: for a custom id the parser refuses, each of the three
  processors returns at once; nothing is sent and the interaction is as it was.
\<close>

theorem unparsed_component_dropped:
  "sampleDecompress ''stale'' = None \<and>
   processButton sampleDecompress sampleServers sampleButtons
     (component Button ''stale'') untouched = (Inr (), untouched) \<and>
   processSelectMenu sampleDecompress sampleServers sampleMenus
     (component StringSelectMenu ''stale'') untouched = (Inr (), untouched) \<and>
   processModalSubmit sampleDecompress sampleServers sampleModals
     (component ModalSubmit ''stale'') untouched = (Inr (), untouched) \<and>
   sent untouched = []"
  by (simp add: processButton_def processSelectMenu_def processModalSubmit_def
      sampleDecompress_def component_def untouched_def)

text \<open>
  C7, amended: a button, select menu or form submission whose component id does not
  parse is returned from with no response and no change. One whose id parses, whose
  server is found and whose handler (the guild table's for a cached guild and a
  location other than dm, the dm table's otherwise) rejects with an error, on a
  repliable interaction, gets that error as the last response: an edit of the reply
  when the interaction was replied to (by the progress message or the handler), a new
  ephemeral reply when not; the processor itself resolves.
\<close>

theorem component_failures:
  "(interactionType i = Button \<and> dec (customId i) = None \<longrightarrow>
      processButton dec getS bm i st = (Inr (), st)) \<and>
   (interactionType i = StringSelectMenu \<and> dec (customId i) = None \<longrightarrow>
      processSelectMenu dec getS sm i st = (Inr (), st)) \<and>
   (interactionType i = ModalSubmit \<and> dec (customId i) = None \<longrightarrow>
      processModalSubmit dec getS mm i st = (Inr (), st)) \<and>
   (interactionType i = Button \<and> dec (customId i) = Some (ty, nm, sid) \<and>
    getS (case guildId i of Some g \<Rightarrow> g | None \<Rightarrow> sid) = Inr server \<and>
    (if inCachedGuild i \<and> ty \<noteq> Dm then guildHandler (guildMethodMap bm) ty nm
     else dmMethodMap bm nm) = Some h \<and>
    h (if nm \<notin> skipProgressMessageButtons bm
       then reply (SimpleEmbed (''Processing button `'' @ nm @ ''`...'')) True st
       else st) = (Some err, st') \<and>
    isRepliable i \<longrightarrow>
      processButton dec getS bm i st =
        (Inr (), st'\<lparr>sent := sent st' @ [errorResponse err server st'], replied := True\<rparr>)) \<and>
   (interactionType i = StringSelectMenu \<and> dec (customId i) = Some (ty, nm, sid) \<and>
    getS (case guildId i of Some g \<Rightarrow> g | None \<Rightarrow> sid) = Inr server \<and>
    (if inCachedGuild i \<and> ty \<noteq> Dm then guildHandler (guildMethodMap sm) ty nm
     else dmMethodMap sm nm) = Some h \<and>
    h (if nm \<notin> skipProgressMessageSelectMenus sm
       then reply (SimpleEmbed (''Processing button `'' @ nm @ ''`'')) True st
       else st) = (Some err, st') \<and>
    isRepliable i \<longrightarrow>
      processSelectMenu dec getS sm i st =
        (Inr (), st'\<lparr>sent := sent st' @ [errorResponse err server st'], replied := True\<rparr>)) \<and>
   (interactionType i = ModalSubmit \<and> dec (customId i) = Some (ty, nm, sid) \<and>
    getS (case guildId i of Some g \<Rightarrow> g | None \<Rightarrow> sid) = Inr server \<and>
    (if inCachedGuild i \<and> ty \<noteq> Dm then guildHandler (guildMethodMap mm) ty nm
     else dmMethodMap mm nm) = Some h \<and>
    h st = (Some err, st') \<and>
    isRepliable i \<longrightarrow>
      processModalSubmit dec getS mm i st =
        (Inr (), st'\<lparr>sent := sent st' @ [errorResponse err server st'], replied := True\<rparr>))"
proof -
  have a: "processButton dec getS bm i st = (Inr (), st)"
    if "interactionType i = Button" "dec (customId i) = None"
    using that by (simp add: processButton_def)
  have b: "processSelectMenu dec getS sm i st = (Inr (), st)"
    if "interactionType i = StringSelectMenu" "dec (customId i) = None"
    using that by (simp add: processSelectMenu_def)
  have c: "processModalSubmit dec getS mm i st = (Inr (), st)"
    if "interactionType i = ModalSubmit" "dec (customId i) = None"
    using that by (simp add: processModalSubmit_def)
  have d: "processButton dec getS bm i st =
        (Inr (), st'\<lparr>sent := sent st' @ [errorResponse err server st'], replied := True\<rparr>)"
    if "interactionType i = Button" "dec (customId i) = Some (ty, nm, sid)"
       "getS (case guildId i of Some g \<Rightarrow> g | None \<Rightarrow> sid) = Inr server"
       "(if inCachedGuild i \<and> ty \<noteq> Dm then guildHandler (guildMethodMap bm) ty nm
         else dmMethodMap bm nm) = Some h"
       "h (if nm \<notin> skipProgressMessageButtons bm
           then reply (SimpleEmbed (''Processing button `'' @ nm @ ''`...'')) True st
           else st) = (Some err, st')"
       "isRepliable i"
    using that
    by (auto simp: processButton_def Let_def errorResponse_def invoke_def replyWithError_def
        reply_def editReply_def split: if_splits)
  have e: "processSelectMenu dec getS sm i st =
        (Inr (), st'\<lparr>sent := sent st' @ [errorResponse err server st'], replied := True\<rparr>)"
    if "interactionType i = StringSelectMenu" "dec (customId i) = Some (ty, nm, sid)"
       "getS (case guildId i of Some g \<Rightarrow> g | None \<Rightarrow> sid) = Inr server"
       "(if inCachedGuild i \<and> ty \<noteq> Dm then guildHandler (guildMethodMap sm) ty nm
         else dmMethodMap sm nm) = Some h"
       "h (if nm \<notin> skipProgressMessageSelectMenus sm
           then reply (SimpleEmbed (''Processing button `'' @ nm @ ''`'')) True st
           else st) = (Some err, st')"
       "isRepliable i"
    using that
    by (auto simp: processSelectMenu_def Let_def errorResponse_def invoke_def
        replyWithError_def reply_def editReply_def split: if_splits)
  have f: "processModalSubmit dec getS mm i st =
        (Inr (), st'\<lparr>sent := sent st' @ [errorResponse err server st'], replied := True\<rparr>)"
    if "interactionType i = ModalSubmit" "dec (customId i) = Some (ty, nm, sid)"
       "getS (case guildId i of Some g \<Rightarrow> g | None \<Rightarrow> sid) = Inr server"
       "(if inCachedGuild i \<and> ty \<noteq> Dm then guildHandler (guildMethodMap mm) ty nm
         else dmMethodMap mm nm) = Some h"
       "h st = (Some err, st')"
       "isRepliable i"
    using that
    by (auto simp: processModalSubmit_def Let_def errorResponse_def invoke_def
        replyWithError_def reply_def editReply_def split: if_splits)
  from a b c d e f show ?thesis by blast
qed

theorem component_failures_witness:
  "processButton sampleDecompress sampleServers sampleButtons
     (component Button ''expired'') untouched = (Inr (), untouched) \<and>
   processSelectMenu sampleDecompress sampleServers sampleMenus
     (component StringSelectMenu ''expired'') untouched = (Inr (), untouched) \<and>
   processModalSubmit sampleDecompress sampleServers sampleModals
     (component ModalSubmit ''expired'') untouched = (Inr (), untouched) \<and>
   processButton sampleDecompress sampleServers sampleButtons
     (component Button ''queue|join|900'') untouched =
     (Inr (),
      \<lparr>replied = True,
       sent = [Reply (SimpleEmbed ''Processing button `join`...'') True,
               EditReply (ErrorEmbed (QueueError ''Queue is not open.'' ''ECS 36A'')
                            (Some ''1''))]\<rparr>) \<and>
   processSelectMenu sampleDecompress sampleServers sampleMenus
     (component StringSelectMenu ''queue|join|900'') untouched =
     (Inr (),
      \<lparr>replied = True,
       sent = [Reply (ErrorEmbed (QueueError ''Queue is not open.'' ''ECS 36A'') (Some ''1''))
                 True]\<rparr>) \<and>
   processModalSubmit sampleDecompress sampleServers sampleModals
     (component ModalSubmit ''queue|join|900'') untouched =
     (Inr (),
      \<lparr>replied = True,
       sent = [Reply (ErrorEmbed (QueueError ''Queue is not open.'' ''ECS 36A'') (Some ''1''))
                 True]\<rparr>)"
proof -
  let ?err = "QueueError ''Queue is not open.'' ''ECS 36A''"
  let ?server = "\<lparr>botAdminRoleID = ''1''\<rparr>"
  let ?progress = "\<lparr>replied = True,
    sent = [Reply (SimpleEmbed ''Processing button `join`...'') True]\<rparr>"
  have a: "processButton sampleDecompress sampleServers sampleButtons
      (component Button ''expired'') untouched = (Inr (), untouched)"
    using component_failures[where i = "component Button ''expired''"
        and dec = sampleDecompress and getS = sampleServers and bm = sampleButtons
        and st = untouched]
    by (simp add: component_def sampleDecompress_def)
  have b: "processSelectMenu sampleDecompress sampleServers sampleMenus
      (component StringSelectMenu ''expired'') untouched = (Inr (), untouched)"
    using component_failures[where i = "component StringSelectMenu ''expired''"
        and dec = sampleDecompress and getS = sampleServers and sm = sampleMenus
        and st = untouched]
    by (simp add: component_def sampleDecompress_def)
  have c: "processModalSubmit sampleDecompress sampleServers sampleModals
      (component ModalSubmit ''expired'') untouched = (Inr (), untouched)"
    using component_failures[where i = "component ModalSubmit ''expired''"
        and dec = sampleDecompress and getS = sampleServers and mm = sampleModals
        and st = untouched]
    by (simp add: component_def sampleDecompress_def)
  have d: "processButton sampleDecompress sampleServers sampleButtons
      (component Button ''queue|join|900'') untouched =
      (Inr (), ?progress\<lparr>sent := sent ?progress @ [errorResponse ?err ?server ?progress],
                 replied := True\<rparr>)"
    using component_failures[where i = "component Button ''queue|join|900''"
        and dec = sampleDecompress and getS = sampleServers and bm = sampleButtons
        and st = untouched and ty = Queue and nm = "''join''" and sid = "''900''"
        and server = ?server and h = closedHandler and err = ?err and st' = ?progress]
    by (simp add: component_def sampleDecompress_def sampleServers_def sampleButtons_def
        guildHandler_def closedHandler_def reply_def untouched_def)
  have e: "processSelectMenu sampleDecompress sampleServers sampleMenus
      (component StringSelectMenu ''queue|join|900'') untouched =
      (Inr (), untouched\<lparr>sent := sent untouched @ [errorResponse ?err ?server untouched],
                 replied := True\<rparr>)"
    using component_failures[where i = "component StringSelectMenu ''queue|join|900''"
        and dec = sampleDecompress and getS = sampleServers and sm = sampleMenus
        and st = untouched and ty = Queue and nm = "''join''" and sid = "''900''"
        and server = ?server and h = closedHandler and err = ?err and st' = untouched]
    by (simp add: component_def sampleDecompress_def sampleServers_def sampleMenus_def
        guildHandler_def closedHandler_def)
  have f: "processModalSubmit sampleDecompress sampleServers sampleModals
      (component ModalSubmit ''queue|join|900'') untouched =
      (Inr (), untouched\<lparr>sent := sent untouched @ [errorResponse ?err ?server untouched],
                 replied := True\<rparr>)"
    using component_failures[where i = "component ModalSubmit ''queue|join|900''"
        and dec = sampleDecompress and getS = sampleServers and mm = sampleModals
        and st = untouched and ty = Queue and nm = "''join''" and sid = "''900''"
        and server = ?server and h = closedHandler and err = ?err and st' = untouched]
    by (simp add: component_def sampleDecompress_def sampleServers_def sampleModals_def
        guildHandler_def closedHandler_def)
  from a b c d e f show ?thesis
    by (simp add: errorResponse_def untouched_def)
qed

text \<open>
  C8. The line of a queue constructed from a backup is made of exactly the backup
  entries whose member id is found among the channel's members, in the backup's order
  (a subsequence of the backup): entry by entry it keeps the saved \<open>waitStart\<close> and
  \<open>upNext\<close> and holds the member the lookup returned. The constructor has no failing
  branch; entries that are not found are left out.
\<close>

theorem constructor_restores_resolvable:
  "(let backup = studentsInQueue b;
        kept = filter (\<lambda>sb. Collection_has (channelObj_members ch) (memberId sb)) backup;
        line = students (HelpQueueV2_constructor ch (Some b))
    in subseq kept backup \<and>
       length line = length kept \<and>
       map waitStart line = map waitStart_b kept \<and>
       map upNext line = map upNext_b kept \<and>
       map (\<lambda>s. Some (helpee_member s)) line =
         map (\<lambda>sb. Collection_get (channelObj_members ch) (memberId sb)) kept)"
proof -
  let ?kept = "filter (\<lambda>sb. Collection_has (channelObj_members ch) (memberId sb))
    (studentsInQueue b)"
  let ?line = "students (HelpQueueV2_constructor ch (Some b))"
  have fields: "map waitStart ?line = map waitStart_b ?kept \<and>
      map upNext ?line = map upNext_b ?kept \<and>
      map (\<lambda>s. Some (helpee_member s)) ?line =
        map (\<lambda>sb. Collection_get (channelObj_members ch) (memberId sb)) ?kept"
    using restored_fields[of ch "studentsInQueue b"]
    by (simp add: HelpQueueV2_constructor_def foldl_restore Let_def)
  then have "length (map waitStart ?line) = length (map waitStart_b ?kept)"
    by simp
  then have "length ?line = length ?kept"
    by simp
  with fields show ?thesis
    by (simp add: Let_def)
qed

theorem constructor_restores_resolvable_witness:
  "students (HelpQueueV2_constructor officeHours (Some savedLine)) =
     [\<lparr>waitStart = 5, upNext = True, helpee_member = bob\<rparr>,
      \<lparr>waitStart = 7, upNext = False, helpee_member = carol\<rparr>] \<and>
   map waitStart (students (HelpQueueV2_constructor officeHours (Some savedLine))) = [5, 7] \<and>
   length (students (HelpQueueV2_constructor officeHours (Some savedLine))) = 2 \<and>
   length (studentsInQueue savedLine) = 3"
  using constructor_restores_resolvable[of savedLine officeHours]
  by (simp add: Let_def savedLine_def officeHours_def HelpQueueV2_constructor_def
      restoreStudent_def Collection_get_def Collection_has_def)

text \<open>
  C9. With no interaction extension \<open>combineMethodMaps\<close> returns the four base tables as
  they are.
\<close>

theorem combineMethodMaps_no_extensions:
  "combineMethodMaps base [] = Some base"
  by (simp add: combineMethodMaps_def split: prod.splits)

text \<open>
  C10. When the target is in the line, \<open>removeStudent\<close> takes out the first entry with
  the target's id and nothing else: the entries before it (none of which has that id)
  and the entries after it stay, in their order, and the helpers, the notification
  group and the open flag are as before. When the target is not in the line it rejects
  with "<display name> is not in the queue" and the queue is as before.
\<close>

theorem removeStudent_cases:
  "(isRequester q (member_id t) \<longrightarrow>
      (\<exists>pre s post.
          students q = pre @ s # post \<and>
          member_id (helpee_member s) = member_id t \<and>
          (\<forall>x \<in> set pre. member_id (helpee_member x) \<noteq> member_id t) \<and>
          snd (removeStudent q t aw) = q\<lparr>students := pre @ post\<rparr>) \<and>
      helpers (snd (removeStudent q t aw)) = helpers q \<and>
      notifGroup (snd (removeStudent q t aw)) = notifGroup q \<and>
      isOpen (snd (removeStudent q t aw)) = isOpen q) \<and>
   (\<not> isRequester q (member_id t) \<longrightarrow>
      removeStudent q t aw =
        (Inl (QueueError (displayName t @ '' is not in the queue'') (name q)), q))"
proof (cases "findIndex (\<lambda>student. member_id (helpee_member student) = member_id t) (students q)")
  case None
  then have "\<not> isRequester q (member_id t)"
    by (auto simp: findIndex_None isRequester_def)
  with None show ?thesis by (simp add: removeStudent_def)
next
  case (Some i)
  then have req: "isRequester q (member_id t)"
    using findIndex_None[of "\<lambda>student. member_id (helpee_member student) = member_id t"
        "students q"]
    by (force simp: isRequester_def)
  from findIndex_Some[OF Some] obtain pre s post where
    d: "students q = pre @ s # post" "length pre = i"
       "member_id (helpee_member s) = member_id t"
       "\<forall>x \<in> set pre. member_id (helpee_member x) \<noteq> member_id t"
    by blast
  have "snd (removeStudent q t aw) = q\<lparr>students := pre @ post\<rparr>"
    using Some d(1,2) splice1_append[of pre s post]
    by (simp add: removeStudent_def Let_def)
  with d req show ?thesis by auto
qed

theorem removeStudent_cases_witness:
  "isRequester waitingQueue (member_id carol) \<and>
   students (snd (removeStudent waitingQueue carol resolved)) =
     [\<lparr>waitStart = 20, upNext = True, helpee_member = bob\<rparr>] \<and>
   helpers (snd (removeStudent waitingQueue carol resolved)) = helpers waitingQueue \<and>
   notifGroup (snd (removeStudent waitingQueue carol resolved)) = notifGroup waitingQueue \<and>
   isOpen (snd (removeStudent waitingQueue carol resolved)) \<and>
   \<not> isRequester staffedQueue (member_id carol) \<and>
   removeStudent staffedQueue carol resolved =
     (Inl (QueueError ''Carol is not in the queue'' ''ECS 36A''), staffedQueue)"
proof -
  let ?b = "\<lparr>waitStart = 20, upNext = True, helpee_member = bob\<rparr>"
  let ?c = "\<lparr>waitStart = 30, upNext = False, helpee_member = carol\<rparr>"
  have h1: "isRequester waitingQueue (member_id carol)" "isOpen waitingQueue"
    "students waitingQueue = [?b, ?c]"
    by (simp_all add: waitingQueue_eval isRequester_def)
  have h2: "\<not> isRequester staffedQueue (member_id carol)"
    by (simp add: staffedQueue_eval isRequester_def)
  from removeStudent_cases[of waitingQueue carol resolved] h1(1)
  obtain pre s post where
    d: "students waitingQueue = pre @ s # post"
       "member_id (helpee_member s) = member_id carol"
       "\<forall>x \<in> set pre. member_id (helpee_member x) \<noteq> member_id carol"
       "snd (removeStudent waitingQueue carol resolved) = waitingQueue\<lparr>students := pre @ post\<rparr>"
    and frame: "helpers (snd (removeStudent waitingQueue carol resolved)) = helpers waitingQueue"
       "notifGroup (snd (removeStudent waitingQueue carol resolved)) = notifGroup waitingQueue"
       "isOpen (snd (removeStudent waitingQueue carol resolved)) = isOpen waitingQueue"
    by blast
  from d(1,2) h1(3) have "pre = [?b] \<and> post = []"
    by (auto simp: Cons_eq_append_conv bob_def carol_def)
  with d(4) have c1: "students (snd (removeStudent waitingQueue carol resolved)) = [?b]"
    by simp
  have c2: "removeStudent staffedQueue carol resolved =
      (Inl (QueueError (displayName carol @ '' is not in the queue'') (name staffedQueue)),
       staffedQueue)"
    using removeStudent_cases[of staffedQueue carol resolved] h2 by blast
  from h1 h2 frame c1 c2 show ?thesis by (simp add: sample_names carol_def)
qed

end
